theory Spec2Isabelle
  imports Main "HOL-Library.Word"
begin

text \<open>
  The cafe resource of the Terraform provider: the lifecycle hooks that map a plan or a state
  to calls of the HashiCups client and back. The repository holds two drafts of the resource.
  The one modelled here keeps the identifier as a string, lets the user set name, address,
  description and image (as \<open>examples/cafes/main.tf\<close> does) and reads one cafe by its
  identifier. The draft \<open>internal/provider/cafe_resource.go\<close> declares the identifier
  as a string attribute and decodes it into a 64-bit integer; \<open>Configure\<close> is the same
  in both.
\<close>

section \<open>The Go runtime pieces the adapter uses: strconv\<close>

text \<open>
  Go's \<open>int\<close> is a 64-bit two's complement integer on the platforms the provider is
  built for; it is read with \<open>sint\<close>. Strings are byte lists.
\<close>

type_synonym go_int = "64 word"

definition is_digit :: "char \<Rightarrow> bool" where
  "is_digit c = (48 \<le> (of_char c :: nat) \<and> (of_char c :: nat) \<le> 57)"

definition digit_val :: "char \<Rightarrow> nat" where
  "digit_val c = of_char c - 48"

definition digit_char :: "nat \<Rightarrow> char" where
  "digit_char d = char_of (48 + d)"

text \<open>\<open>strconv.FormatUint(n, 10)\<close>: the decimal digits, most significant first.\<close>

fun digits :: "nat \<Rightarrow> string" where
  "digits n = (if n < 10 then [digit_char n] else digits (n div 10) @ [digit_char (n mod 10)])"

declare digits.simps [simp del]

text \<open>\<open>strconv.Itoa(i)\<close> is \<open>FormatInt(int64(i), 10)\<close>: a minus sign and the magnitude.\<close>

definition Itoa :: "go_int \<Rightarrow> string" where
  "Itoa i = (if sint i < 0 then CHR ''-'' # digits (nat (- sint i)) else digits (nat (sint i)))"

datatype strconv_Err = ErrSyntax | ErrRange

record NumError =
  Func :: string
  Num :: string
  Err :: strconv_Err

text \<open>
  The digit loop of \<open>strconv.ParseUint(s, 10, 64)\<close>: a byte that is no decimal digit is
  a syntax error, a value that leaves the unsigned 64-bit range is a range error, in the order
  the bytes are met.
\<close>

fun parse_digits :: "nat \<Rightarrow> string \<Rightarrow> strconv_Err + nat" where
  "parse_digits n [] = Inr n"
| "parse_digits n (c # cs) =
     (if \<not> is_digit c then Inl ErrSyntax
      else if 2 ^ 64 \<le> 10 * n + digit_val c then Inl ErrRange
      else parse_digits (10 * n + digit_val c) cs)"

definition ParseUint :: "string \<Rightarrow> strconv_Err + nat" where
  "ParseUint s = (if s = [] then Inl ErrSyntax else parse_digits 0 s)"

text \<open>
  \<open>strconv.ParseInt(s, 10, 0)\<close>: an optional sign, then \<open>ParseUint\<close>, then the check
  against the signed range of \<open>int\<close>.
\<close>

definition ParseInt :: "string \<Rightarrow> strconv_Err + go_int" where
  "ParseInt s =
     (case s of
        [] \<Rightarrow> Inl ErrSyntax
      | c # cs \<Rightarrow>
          (let neg = (c = CHR ''-'');
               s1 = (if c = CHR ''+'' \<or> c = CHR ''-'' then cs else s)
           in case ParseUint s1 of
                Inl e \<Rightarrow> Inl e
              | Inr un \<Rightarrow>
                  if \<not> neg \<and> 2 ^ 63 \<le> un then Inl ErrRange
                  else if neg \<and> 2 ^ 63 < un then Inl ErrRange
                  else Inr (if neg then - word_of_nat un else word_of_nat un)))"

text \<open>\<open>strconv.Atoi(s)\<close>: \<open>ParseInt(s, 10, 0)\<close> with the error renamed to \<open>Atoi\<close>.\<close>

definition Atoi :: "string \<Rightarrow> NumError + go_int" where
  "Atoi s =
     (case ParseInt s of
        Inl e \<Rightarrow> Inl \<lparr>Func = ''Atoi'', Num = s, Err = e\<rparr>
      | Inr n \<Rightarrow> Inr n)"

text \<open>
  \<open>(*NumError).Error()\<close>. \<open>strconv.Quote\<close> depends on Unicode tables and is taken as
  the parameter \<open>Quote\<close>.
\<close>

definition NumError_Error :: "(string \<Rightarrow> string) \<Rightarrow> NumError \<Rightarrow> string" where
  "NumError_Error Quote e =
     ''strconv.'' @ Func e @ '': parsing '' @ Quote (Num e) @ '': '' @
     (case Err e of ErrSyntax \<Rightarrow> ''invalid syntax'' | ErrRange \<Rightarrow> ''value out of range'')"


section \<open>Diagnostics and values of the plugin framework\<close>

datatype severity = SeverityError | SeverityWarning

record diagnostic =
  Severity :: severity
  Summary :: string
  Detail :: string

type_synonym Diagnostics = "diagnostic list"

definition NewErrorDiagnostic :: "string \<Rightarrow> string \<Rightarrow> diagnostic" where
  "NewErrorDiagnostic summary detail =
     \<lparr>Severity = SeverityError, Summary = summary, Detail = detail\<rparr>"

fun Contains :: "Diagnostics \<Rightarrow> diagnostic \<Rightarrow> bool" where
  "Contains [] d = False"
| "Contains (x # xs) d = (if x = d then True else Contains xs d)"

text \<open>\<open>Diagnostics.Append\<close> skips a diagnostic that the collection already holds.\<close>

fun Append :: "Diagnostics \<Rightarrow> diagnostic list \<Rightarrow> Diagnostics" where
  "Append diags [] = diags"
| "Append diags (d # ds) = Append (if Contains diags d then diags else diags @ [d]) ds"

definition AddError :: "Diagnostics \<Rightarrow> string \<Rightarrow> string \<Rightarrow> Diagnostics" where
  "AddError diags summary detail = Append diags [NewErrorDiagnostic summary detail]"

fun HasError :: "Diagnostics \<Rightarrow> bool" where
  "HasError [] = False"
| "HasError (d # ds) = (if Severity d = SeverityError then True else HasError ds)"

text \<open>\<open>types.String\<close>: null, unknown or a known string; \<open>ValueString\<close> is empty unless known.\<close>

datatype types_String = StringNull | StringUnknown | StringValue string

fun ValueString :: "types_String \<Rightarrow> string" where
  "ValueString (StringValue s) = s"
| "ValueString StringNull = []"
| "ValueString StringUnknown = []"

text \<open>
  A \<open>tfsdk.Plan\<close> or \<open>tfsdk.State\<close> is represented by what its \<open>Get\<close> method delivers:
  the diagnostics of decoding it and the decoded struct. \<open>Set\<close> stores a struct; every
  attribute of the schema is a string attribute and every field written is a known string, so
  the conversion reports nothing.
\<close>

record 'm tfsdk =
  Get_diags :: Diagnostics
  Get_val :: 'm

definition State_Set :: "'m tfsdk \<Rightarrow> 'm \<Rightarrow> 'm tfsdk \<times> Diagnostics" where
  "State_Set st v = (\<lparr>Get_diags = [], Get_val = v\<rparr>, [])"

text \<open>The response of a lifecycle hook: the state to persist and the diagnostics.\<close>

record 'm Response =
  State :: "'m tfsdk"
  Diagnostics :: Diagnostics

section \<open>The remote client\<close>

text \<open>
  \<open>hashicups.Cafe\<close> and \<open>hashicups.Client\<close> belong to the client library. The entity has
  the five fields the adapter reads and writes. A client method takes the state of the remote
  system and returns the error text or the result together with the remote state afterwards.
\<close>

record Cafe =
  Cafe_ID :: go_int
  Cafe_Name :: string
  Cafe_Address :: string
  Cafe_Description :: string
  Cafe_Image :: string

record 'r Client =
  CreateCafe :: "Cafe list \<Rightarrow> 'r \<Rightarrow> (string + Cafe) \<times> 'r"
  GetCafe :: "string \<Rightarrow> 'r \<Rightarrow> (string + Cafe list) \<times> 'r"
  UpdateCafe :: "string \<Rightarrow> Cafe list \<Rightarrow> 'r \<Rightarrow> (string + Cafe) \<times> 'r"

text \<open>An observer: the same client, with every call it receives written to a log.\<close>

datatype call = Call_CreateCafe "Cafe list" | Call_GetCafe string | Call_UpdateCafe string "Cafe list"

definition recording :: "'r Client \<Rightarrow> ('r \<times> call list) Client" where
  "recording cl =
     \<lparr>CreateCafe = (\<lambda>items (s, log).
        (fst (CreateCafe cl items s), (snd (CreateCafe cl items s), log @ [Call_CreateCafe items]))),
      GetCafe = (\<lambda>cafeID (s, log).
        (fst (GetCafe cl cafeID s), (snd (GetCafe cl cafeID s), log @ [Call_GetCafe cafeID]))),
      UpdateCafe = (\<lambda>cafeID items (s, log).
        (fst (UpdateCafe cl cafeID items s),
         (snd (UpdateCafe cl cafeID items s), log @ [Call_UpdateCafe cafeID items])))\<rparr>"

text \<open>
  The stub of the creation scenario: it assigns the identifier \<open>n\<close> and echoes every
  submitted field of the first entity of the request; it stores nothing.
\<close>

definition echo_stub :: "go_int \<Rightarrow> unit Client" where
  "echo_stub n =
     \<lparr>CreateCafe = (\<lambda>items s.
        (case items of [] \<Rightarrow> Inl ''empty request'' | c # _ \<Rightarrow> Inr (c\<lparr>Cafe_ID := n\<rparr>), s)),
      GetCafe = (\<lambda>cafeID s. (Inr [], s)),
      UpdateCafe = (\<lambda>cafeID items s. (Inl ''not found'', s))\<rparr>"

section \<open>The resource adapter\<close>

record 'id cafeResourceModel =
  ID :: 'id
  Name :: types_String
  Address :: types_String
  Description :: types_String
  Image_attr :: types_String

text \<open>
  \<open>cafeResource\<close> holds the client handle, a pointer that is nil until \<open>Configure\<close> sets
  it. A lifecycle hook that reaches a client call through a nil handle does not return:
  its result is \<open>None\<close>.
\<close>

record 'r cafeResource =
  client :: "'r Client option"

text \<open>
  \<open>req.ProviderData\<close> is an interface value: nil, a \<open>*hashicups.Client\<close> (a pointer,
  possibly nil), or a value of another type, given by the name \<open>%T\<close> prints.
\<close>

datatype 'r ProviderData =
  ProviderData_nil | ProviderData_Client "'r Client option" | ProviderData_other string

definition Configure ::
  "'r cafeResource \<Rightarrow> 'r ProviderData \<Rightarrow> Diagnostics \<Rightarrow> 'r cafeResource \<times> Diagnostics" where
  "Configure r req_ProviderData resp_Diagnostics =
     (case req_ProviderData of
        ProviderData_nil \<Rightarrow> (r, resp_Diagnostics)
      | ProviderData_other T \<Rightarrow>
          (r, AddError resp_Diagnostics ''Unexpected Data Source Configure Type''
                (''Expected *hashicups.Client, got: '' @ T @
                 ''. Please report this issue to the provider developers.''))
      | ProviderData_Client c \<Rightarrow> (r\<lparr>client := c\<rparr>, resp_Diagnostics))"

text \<open>\<open>Create\<close>, \<open>Read\<close> and \<open>Update\<close>.\<close>

definition Create ::
  "'r cafeResource \<Rightarrow> types_String cafeResourceModel tfsdk \<Rightarrow>
   types_String cafeResourceModel Response \<Rightarrow> 'r \<Rightarrow>
   (types_String cafeResourceModel Response \<times> 'r) option" where
  "Create r req_Plan resp rs =
     (let plan = Get_val req_Plan;
          diags = Get_diags req_Plan;
          resp = resp\<lparr>Diagnostics := Append (Diagnostics resp) diags\<rparr>
      in if HasError (Diagnostics resp) then Some (resp, rs)
         else
           let cafe = \<lparr>Cafe_ID = 0,
                       Cafe_Name = ValueString (Name plan),
                       Cafe_Address = ValueString (Address plan),
                       Cafe_Description = ValueString (Description plan),
                       Cafe_Image = ValueString (Image_attr plan)\<rparr>
           in case client r of
                None \<Rightarrow> None
              | Some cl \<Rightarrow>
                  (case CreateCafe cl [cafe] rs of
                     (Inl err, rs') \<Rightarrow>
                       Some (resp\<lparr>Diagnostics :=
                               AddError (Diagnostics resp) ''Error creating cafe''
                                 (''Could not create cafe, unexpected error: '' @ err)\<rparr>, rs')
                   | (Inr createdCafe, rs') \<Rightarrow>
                       let plan = plan\<lparr>ID := StringValue (Itoa (Cafe_ID createdCafe)),
                                        Name := StringValue (Cafe_Name createdCafe),
                                        Address := StringValue (Cafe_Address createdCafe),
                                        Description := StringValue (Cafe_Description createdCafe),
                                        Image_attr := StringValue (Cafe_Image createdCafe)\<rparr>;
                           (st, diags) = State_Set (State resp) plan
                       in Some (resp\<lparr>State := st,
                                      Diagnostics := Append (Diagnostics resp) diags\<rparr>, rs')))"

definition Read ::
  "(string \<Rightarrow> string) \<Rightarrow> 'r cafeResource \<Rightarrow> types_String cafeResourceModel tfsdk \<Rightarrow>
   types_String cafeResourceModel Response \<Rightarrow> 'r \<Rightarrow>
   (types_String cafeResourceModel Response \<times> 'r) option" where
  "Read Quote r req_State resp rs =
     (let state = Get_val req_State;
          diags = Get_diags req_State;
          resp = resp\<lparr>Diagnostics := Append (Diagnostics resp) diags\<rparr>
      in if HasError (Diagnostics resp) then Some (resp, rs)
         else
           case Atoi (ValueString (ID state)) of
             Inl err \<Rightarrow>
               Some (resp\<lparr>Diagnostics :=
                       AddError (Diagnostics resp) ''Error Converting Cafe ID''
                         (''Could not convert cafe ID to integer: '' @ NumError_Error Quote err)\<rparr>,
                     rs)
           | Inr cafeID \<Rightarrow>
               (case client r of
                  None \<Rightarrow> None
                | Some cl \<Rightarrow>
                    (case GetCafe cl (Itoa cafeID) rs of
                       (Inl err, rs') \<Rightarrow>
                         Some (resp\<lparr>Diagnostics :=
                                 AddError (Diagnostics resp) ''Unable to Read HashiCups Cafe'' err\<rparr>,
                               rs')
                     | (Inr cafes, rs') \<Rightarrow>
                         (case cafes of
                            [] \<Rightarrow>
                              Some (resp\<lparr>Diagnostics :=
                                      AddError (Diagnostics resp) ''Cafe Not Found''
                                        ''No cafe found with the given ID''\<rparr>, rs')
                          | cafe # _ \<Rightarrow>
                              let state = state\<lparr>ID := StringValue (Itoa (Cafe_ID cafe)),
                                                 Address := StringValue (Cafe_Address cafe),
                                                 Image_attr := StringValue (Cafe_Image cafe),
                                                 Name := StringValue (Cafe_Name cafe),
                                                 Description := StringValue (Cafe_Description cafe)\<rparr>;
                                  (st, diags) = State_Set (State resp) state
                              in Some (resp\<lparr>State := st,
                                             Diagnostics := Append (Diagnostics resp) diags\<rparr>,
                                       rs')))))"

definition Update ::
  "(string \<Rightarrow> string) \<Rightarrow> 'r cafeResource \<Rightarrow> types_String cafeResourceModel tfsdk \<Rightarrow>
   types_String cafeResourceModel Response \<Rightarrow> 'r \<Rightarrow>
   (types_String cafeResourceModel Response \<times> 'r) option" where
  "Update Quote r req_Plan resp rs =
     (let plan = Get_val req_Plan;
          diags = Get_diags req_Plan;
          resp = resp\<lparr>Diagnostics := Append (Diagnostics resp) diags\<rparr>
      in if HasError (Diagnostics resp) then Some (resp, rs)
         else
           case Atoi (ValueString (ID plan)) of
             Inl err \<Rightarrow>
               Some (resp\<lparr>Diagnostics :=
                       AddError (Diagnostics resp) ''Error Converting Cafe ID''
                         (''Could not convert cafe ID to integer: '' @ NumError_Error Quote err)\<rparr>,
                     rs)
           | Inr cafeID \<Rightarrow>
               let cafe = \<lparr>Cafe_ID = cafeID,
                           Cafe_Name = ValueString (Name plan),
                           Cafe_Address = ValueString (Address plan),
                           Cafe_Description = ValueString (Description plan),
                           Cafe_Image = ValueString (Image_attr plan)\<rparr>
               in case client r of
                    None \<Rightarrow> None
                  | Some cl \<Rightarrow>
                      (case UpdateCafe cl (ValueString (ID plan)) [cafe] rs of
                         (Inl err, rs') \<Rightarrow>
                           Some (resp\<lparr>Diagnostics :=
                                   AddError (Diagnostics resp) ''Error Updating HashiCups Cafe''
                                     (''Could not update cafe, unexpected error: '' @ err)\<rparr>, rs')
                       | (Inr updatedCafe, rs') \<Rightarrow>
                           let plan = plan\<lparr>ID := StringValue (Itoa (Cafe_ID updatedCafe)),
                                            Name := StringValue (Cafe_Name updatedCafe),
                                            Address := StringValue (Cafe_Address updatedCafe),
                                            Description := StringValue (Cafe_Description updatedCafe),
                                            Image_attr := StringValue (Cafe_Image updatedCafe)\<rparr>;
                               (st, diags) = State_Set (State resp) plan
                           in Some (resp\<lparr>State := st,
                                          Diagnostics := Append (Diagnostics resp) diags\<rparr>,
                                    rs')))"


section \<open>Stubs and example data\<close>

text \<open>A stub that answers every call with a fixed response and stores nothing.\<close>

definition scripted ::
  "(string + Cafe) \<Rightarrow> (string + Cafe list) \<Rightarrow> (string + Cafe) \<Rightarrow> unit Client" where
  "scripted created found updated =
     \<lparr>CreateCafe = (\<lambda>items s. (created, s)),
      GetCafe = (\<lambda>cafeID s. (found, s)),
      UpdateCafe = (\<lambda>cafeID items s. (updated, s))\<rparr>"

text \<open>
  The plan of the creation scenario (the identifier is computed, hence unknown), the
  response a hook starts from before anything is persisted, the state of a created
  resource, and two entities of the remote system.
\<close>

definition scenario_plan :: "types_String cafeResourceModel tfsdk" where
  "scenario_plan =
     \<lparr>Get_diags = [],
      Get_val = \<lparr>ID = StringUnknown,
                 Name = StringValue ''Sample Cafe'',
                 Address = StringValue ''123 Coffee St'',
                 Description = StringValue ''A cozy place'',
                 Image_attr = StringValue ''http://example.com/image.jpg''\<rparr>\<rparr>"

definition null_response :: "types_String cafeResourceModel Response" where
  "null_response =
     \<lparr>State = \<lparr>Get_diags = [],
                Get_val = \<lparr>ID = StringNull, Name = StringNull, Address = StringNull,
                           Description = StringNull, Image_attr = StringNull\<rparr>\<rparr>,
      Diagnostics = []\<rparr>"

definition stored_state :: "types_String cafeResourceModel tfsdk" where
  "stored_state =
     \<lparr>Get_diags = [],
      Get_val = \<lparr>ID = StringValue ''42'',
                 Name = StringValue ''Old Name'',
                 Address = StringValue ''Old Address'',
                 Description = StringNull,
                 Image_attr = StringNull\<rparr>\<rparr>"

definition corrupt_state :: "types_String cafeResourceModel tfsdk" where
  "corrupt_state =
     \<lparr>Get_diags = [],
      Get_val = \<lparr>ID = StringValue ''abc'',
                 Name = StringValue ''Old Name'',
                 Address = StringValue ''Old Address'',
                 Description = StringNull,
                 Image_attr = StringNull\<rparr>\<rparr>"

text \<open>\<open>strconv.Quote\<close> on printable ASCII without quotes or backslashes.\<close>

definition quote_ascii :: "string \<Rightarrow> string" where
  "quote_ascii s = CHR 0x22 # s @ [CHR 0x22]"

definition cafe42 :: Cafe where
  "cafe42 = \<lparr>Cafe_ID = 42, Cafe_Name = ''Sample Cafe'', Cafe_Address = ''123 Coffee St'',
             Cafe_Description = ''A cozy place'', Cafe_Image = ''http://example.com/image.jpg''\<rparr>"

definition cafe43 :: Cafe where
  "cafe43 = \<lparr>Cafe_ID = 43, Cafe_Name = ''Other Cafe'', Cafe_Address = ''9 Tea Rd'',
             Cafe_Description = [], Cafe_Image = []\<rparr>"

section \<open>Decimal notation: printing and parsing agree\<close>

lemma digit_char_ok: "d < 10 \<Longrightarrow> is_digit (digit_char d) \<and> digit_val (digit_char d) = d"
  by (simp add: is_digit_def digit_val_def digit_char_def)

lemma parse_digits_append:
  "parse_digits a (xs @ ys) = (case parse_digits a xs of Inl e \<Rightarrow> Inl e | Inr b \<Rightarrow> parse_digits b ys)"
  by (induction xs arbitrary: a) simp_all

lemma parse_digits_digits: "m < 2 ^ 64 \<Longrightarrow> parse_digits 0 (digits m) = Inr m"
proof (induction m rule: digits.induct)
  case (1 n)
  show ?case
  proof (cases "n < 10")
    case True
    with 1(2) show ?thesis by (simp add: digits.simps [of n] digit_char_ok)
  next
    case False
    have lt: "n div 10 < 2 ^ 64" using 1(2) by (meson div_le_dividend le_less_trans)
    have m: "n mod 10 < 10" by simp
    have eq: "10 * (n div 10) + n mod 10 = n" by simp
    from False 1(1) lt have "parse_digits 0 (digits (n div 10)) = Inr (n div 10)" by simp
    with False 1(2) show ?thesis
      by (simp add: digits.simps [of n] parse_digits_append digit_char_ok [OF m] eq)
  qed
qed

lemma digits_not_Nil: "digits n \<noteq> []"
  by (subst digits.simps) simp

lemma digits_all_digit: "c \<in> set (digits n) \<Longrightarrow> is_digit c"
proof (induction n rule: digits.induct)
  case (1 n)
  have m: "n mod 10 < 10" by simp
  show ?case
  proof (cases "n < 10")
    case True
    with 1(2) show ?thesis by (simp add: digits.simps [of n] digit_char_ok)
  next
    case False
    with 1 show ?thesis
      by (auto simp: digits.simps [of n] digit_char_ok [OF m])
  qed
qed

lemma digits_Cons: "digits n = c # cs \<Longrightarrow> is_digit c"
  using digits_all_digit [of c n] by simp

lemma ParseUint_digits: "m < 2 ^ 64 \<Longrightarrow> ParseUint (digits m) = Inr m"
  by (simp add: ParseUint_def digits_not_Nil parse_digits_digits)

lemma ParseInt_Itoa: "ParseInt (Itoa w) = Inr w"
proof (cases "sint w < 0")
  case True
  define m where "m = nat (- sint w)"
  have ge: "- (2 ^ 63) \<le> sint w" using sint_ge [of w] by simp
  have m_le: "m \<le> 2 ^ 63" using ge True by (simp add: m_def nat_le_iff)
  then have m_lt: "m < 2 ^ 64" by simp
  have "(word_of_nat m :: go_int) = word_of_int (- sint w)"
    using True by (simp add: m_def)
  then have wb: "- (word_of_nat m :: go_int) = w" by simp
  have "Itoa w = CHR ''-'' # digits m" using True by (simp add: Itoa_def m_def)
  then show ?thesis
    using m_le wb by (simp add: ParseInt_def ParseUint_digits [OF m_lt])
next
  case False
  define m where "m = nat (sint w)"
  have lt: "sint w < 2 ^ 63" using sint_lt [of w] by simp
  have m_lt63: "m < 2 ^ 63" using lt False by (simp add: m_def nat_less_iff)
  then have m_lt: "m < 2 ^ 64" by simp
  have wb: "(word_of_nat m :: go_int) = w" using False by (simp add: m_def)
  have it: "Itoa w = digits m" using False by (simp add: Itoa_def m_def)
  obtain c cs where cs: "digits m = c # cs" using digits_not_Nil [of m] by (cases "digits m") auto
  have dc: "is_digit c" using digits_Cons [OF cs] .
  have nosign: "c \<noteq> CHR ''+''" "c \<noteq> CHR ''-''" using dc by (auto simp: is_digit_def)
  have "ParseUint (c # cs) = Inr m" using ParseUint_digits [OF m_lt] cs by simp
  then show ?thesis
    using m_lt63 wb nosign by (simp add: ParseInt_def it cs)
qed

lemma Atoi_Itoa: "Atoi (Itoa w) = Inr w"
  by (simp add: Atoi_def ParseInt_Itoa)

lemma Itoa_not_Nil: "Itoa w \<noteq> []"
  by (simp add: Itoa_def digits_not_Nil)

section \<open>Diagnostics and records: basic facts\<close>

lemma Contains_set: "Contains ds d = (d \<in> set ds)"
  by (induction ds) auto

lemma HasError_set: "HasError ds = (\<exists>d \<in> set ds. Severity d = SeverityError)"
  by (induction ds) auto

lemma AddError_fresh:
  "\<not> HasError ds \<Longrightarrow> AddError ds summary detail = ds @ [NewErrorDiagnostic summary detail]"
  by (auto simp: AddError_def Contains_set HasError_set NewErrorDiagnostic_def)

lemma HasError_snoc_error: "HasError (ds @ [NewErrorDiagnostic summary detail])"
  by (simp add: HasError_set NewErrorDiagnostic_def)

lemma model_all_fields:
  "(m :: 'a cafeResourceModel)\<lparr>ID := a, Name := b, Address := c, Description := d, Image_attr := e\<rparr> =
   \<lparr>ID = a, Name = b, Address = c, Description = d, Image_attr = e\<rparr>"
  by (cases m) simp

lemma model_all_fields_Read:
  "(m :: 'a cafeResourceModel)\<lparr>ID := a, Address := c, Image_attr := e, Name := b, Description := d\<rparr> =
   \<lparr>ID = a, Name = b, Address = c, Description = d, Image_attr = e\<rparr>"
  by (cases m) simp

lemma no_error_not_Contains:
  "\<not> HasError ds \<Longrightarrow> \<not> Contains ds (NewErrorDiagnostic summary detail)"
  by (auto simp: HasError_set Contains_set NewErrorDiagnostic_def)

lemma NewErrorDiagnostic_eq:
  "(NewErrorDiagnostic s d = NewErrorDiagnostic s' d') = (s = s' \<and> d = d')"
  by (auto simp: NewErrorDiagnostic_def)

lemma Itoa_42: "Itoa 42 = ''42''"
  by code_simp

lemma Atoi_42: "Atoi ''42'' = Inr 42"
  by (simp add: Atoi_def ParseInt_def ParseUint_def is_digit_def digit_val_def)

lemma Atoi_abc: "Atoi ''abc'' = Inl \<lparr>Func = ''Atoi'', Num = ''abc'', Err = ErrSyntax\<rparr>"
  by (simp add: Atoi_def ParseInt_def ParseUint_def is_digit_def digit_val_def)

section \<open>Create\<close>

text \<open>
  C1. For every planned model that decodes without an error, Create returns, and either the
  remote create call succeeded and the persisted model has a non-empty identifier (the decimal
  text of the identifier the remote system assigned) and the name, address, description and
  image the remote client echoed, with no diagnostic added; or the remote create call
  returned an error, and then the state is left as it was and one error diagnostic is added
  whose detail ends with the error text of the remote client.
\<close>

theorem Create_model_or_RemoteError:
  assumes "client r = Some cl"
    and "\<not> HasError (Append (Diagnostics resp) (Get_diags req_Plan))"
  shows "\<exists>resp'.
    Create r req_Plan resp rs =
      Some (resp', snd (CreateCafe cl
        [\<lparr>Cafe_ID = 0,
          Cafe_Name = ValueString (Name (Get_val req_Plan)),
          Cafe_Address = ValueString (Address (Get_val req_Plan)),
          Cafe_Description = ValueString (Description (Get_val req_Plan)),
          Cafe_Image = ValueString (Image_attr (Get_val req_Plan))\<rparr>] rs)) \<and>
    (case fst (CreateCafe cl
        [\<lparr>Cafe_ID = 0,
          Cafe_Name = ValueString (Name (Get_val req_Plan)),
          Cafe_Address = ValueString (Address (Get_val req_Plan)),
          Cafe_Description = ValueString (Description (Get_val req_Plan)),
          Cafe_Image = ValueString (Image_attr (Get_val req_Plan))\<rparr>] rs) of
       Inr createdCafe \<Rightarrow>
         State resp' =
           \<lparr>Get_diags = [],
            Get_val = \<lparr>ID = StringValue (Itoa (Cafe_ID createdCafe)),
                       Name = StringValue (Cafe_Name createdCafe),
                       Address = StringValue (Cafe_Address createdCafe),
                       Description = StringValue (Cafe_Description createdCafe),
                       Image_attr = StringValue (Cafe_Image createdCafe)\<rparr>\<rparr> \<and>
         ValueString (ID (Get_val (State resp'))) \<noteq> [] \<and>
         Diagnostics resp' = Append (Diagnostics resp) (Get_diags req_Plan)
     | Inl err \<Rightarrow>
         State resp' = State resp \<and>
         Diagnostics resp' =
           Append (Diagnostics resp) (Get_diags req_Plan) @
           [NewErrorDiagnostic ''Error creating cafe''
              (''Could not create cafe, unexpected error: '' @ err)] \<and>
         HasError (Diagnostics resp'))"
  using assms
  by (auto simp: Create_def Let_def State_Set_def AddError_fresh HasError_snoc_error
        model_all_fields Itoa_not_Nil split: prod.splits sum.splits)

theorem Create_model_or_RemoteError_witness:
  "client \<lparr>client = Some (scripted (Inl ''connection refused'') (Inr []) (Inr cafe42))\<rparr> =
     Some (scripted (Inl ''connection refused'') (Inr []) (Inr cafe42)) \<and>
   \<not> HasError (Append (Diagnostics null_response) (Get_diags scenario_plan)) \<and>
   (\<exists>resp'.
      Create \<lparr>client = Some (scripted (Inl ''connection refused'') (Inr []) (Inr cafe42))\<rparr>
        scenario_plan null_response () = Some (resp', ()) \<and>
      State resp' = State null_response \<and>
      Diagnostics resp' =
        [NewErrorDiagnostic ''Error creating cafe''
           ''Could not create cafe, unexpected error: connection refused''])"
proof -
  let ?cl = "scripted (Inl ''connection refused'') (Inr []) (Inr cafe42)"
  have h1: "client \<lparr>client = Some ?cl\<rparr> = Some ?cl" by simp
  have h2: "\<not> HasError (Append (Diagnostics null_response) (Get_diags scenario_plan))"
    by (simp add: null_response_def scenario_plan_def)
  from Create_model_or_RemoteError [OF h1 h2, of "()"] h1 h2 show ?thesis
    by (auto simp: scripted_def null_response_def scenario_plan_def)
qed

text \<open>
  C2. For every planned model that decodes without an error, the one call the remote client
  receives from Create is a create call whose request is a single entity holding the plan's
  name, address, description and image; its identifier field is the zero value whatever the
  plan holds, since the remote system assigns the identifier.
\<close>

theorem Create_request_sent:
  assumes "client r = Some (recording cl)"
    and "\<not> HasError (Append (Diagnostics resp) (Get_diags req_Plan))"
  shows "\<exists>resp' s'.
    Create r req_Plan resp (s, log) =
      Some (resp', (s', log @
        [Call_CreateCafe
           [\<lparr>Cafe_ID = 0,
             Cafe_Name = ValueString (Name (Get_val req_Plan)),
             Cafe_Address = ValueString (Address (Get_val req_Plan)),
             Cafe_Description = ValueString (Description (Get_val req_Plan)),
             Cafe_Image = ValueString (Image_attr (Get_val req_Plan))\<rparr>]]))"
  using assms
  by (auto simp: Create_def Let_def recording_def split: prod.splits sum.splits)

theorem Create_request_sent_witness:
  "client \<lparr>client = Some (recording (echo_stub 42))\<rparr> = Some (recording (echo_stub 42)) \<and>
   \<not> HasError (Append (Diagnostics null_response) (Get_diags scenario_plan)) \<and>
   (\<exists>resp' s'.
      Create \<lparr>client = Some (recording (echo_stub 42))\<rparr> scenario_plan null_response ((), []) =
        Some (resp', (s',
          [Call_CreateCafe
             [\<lparr>Cafe_ID = 0, Cafe_Name = ''Sample Cafe'', Cafe_Address = ''123 Coffee St'',
               Cafe_Description = ''A cozy place'',
               Cafe_Image = ''http://example.com/image.jpg''\<rparr>]])))"
proof -
  have h1: "client \<lparr>client = Some (recording (echo_stub 42))\<rparr> = Some (recording (echo_stub 42))"
    by simp
  have h2: "\<not> HasError (Append (Diagnostics null_response) (Get_diags scenario_plan))"
    by (simp add: null_response_def scenario_plan_def)
  from Create_request_sent [OF h1 h2, of "()" "[]"] h1 h2 show ?thesis
    by (auto simp: scenario_plan_def)
qed

text \<open>
  C5. The creation scenario: the plan with name "Sample Cafe", address "123 Coffee St",
  description "A cozy place" and image "http://example.com/image.jpg", against a stub that
  assigns the identifier 42 and echoes every submitted field, yields the persisted model with
  identifier "42" and the four attributes of the plan, and no diagnostic.
\<close>

theorem Create_scenario:
  "Create \<lparr>client = Some (echo_stub 42)\<rparr> scenario_plan null_response () =
     Some (\<lparr>State =
              \<lparr>Get_diags = [],
               Get_val = \<lparr>ID = StringValue ''42'',
                          Name = StringValue ''Sample Cafe'',
                          Address = StringValue ''123 Coffee St'',
                          Description = StringValue ''A cozy place'',
                          Image_attr = StringValue ''http://example.com/image.jpg''\<rparr>\<rparr>,
             Diagnostics = []\<rparr>, ())"
  by (simp add: Create_def echo_stub_def scenario_plan_def null_response_def State_Set_def Itoa_42)


section \<open>Read\<close>

text \<open>
  C6. For every current state that decodes without an error and whose stored identifier
  strconv.Atoi rejects, Read adds exactly one error diagnostic, titled "Error Converting Cafe
  ID" and carrying the parser's error text; this is no "Unable to Read HashiCups Cafe"
  diagnostic (the title of a remote error). The state of the response and the state of the
  remote system are returned as they were, for every client, configured or not, so no remote
  call has been made.
\<close>

theorem Read_conversion_error:
  assumes "\<not> HasError (Append (Diagnostics resp) (Get_diags req_State))"
    and "Atoi (ValueString (ID (Get_val req_State))) = Inl e"
  shows "Read Quote r req_State resp rs =
      Some (resp\<lparr>Diagnostics :=
              Append (Diagnostics resp) (Get_diags req_State) @
              [NewErrorDiagnostic ''Error Converting Cafe ID''
                 (''Could not convert cafe ID to integer: '' @ NumError_Error Quote e)]\<rparr>, rs) \<and>
    \<not> Contains
        (Append (Diagnostics resp) (Get_diags req_State) @
         [NewErrorDiagnostic ''Error Converting Cafe ID''
            (''Could not convert cafe ID to integer: '' @ NumError_Error Quote e)])
        (NewErrorDiagnostic ''Unable to Read HashiCups Cafe'' err)"
  using assms no_error_not_Contains [OF assms(1), of "''Unable to Read HashiCups Cafe''" err]
  by (simp add: Read_def Let_def AddError_fresh Contains_set NewErrorDiagnostic_eq)

theorem Read_conversion_error_witness:
  "\<not> HasError (Append (Diagnostics \<lparr>State = corrupt_state, Diagnostics = []\<rparr>)
                  (Get_diags corrupt_state)) \<and>
   Atoi (ValueString (ID (Get_val corrupt_state))) =
     Inl \<lparr>Func = ''Atoi'', Num = ''abc'', Err = ErrSyntax\<rparr> \<and>
   Read quote_ascii \<lparr>client = Some (recording (scripted (Inr cafe42) (Inr [cafe42]) (Inr cafe42)))\<rparr>
     corrupt_state \<lparr>State = corrupt_state, Diagnostics = []\<rparr> ((), []) =
     Some (\<lparr>State = corrupt_state,
            Diagnostics =
              [NewErrorDiagnostic ''Error Converting Cafe ID''
                 (''Could not convert cafe ID to integer: '' @
                  ''strconv.Atoi: parsing '' @ [CHR 0x22] @ ''abc'' @ [CHR 0x22] @
                  '': invalid syntax'')]\<rparr>, ((), []))"
proof -
  have h1: "\<not> HasError (Append (Diagnostics \<lparr>State = corrupt_state, Diagnostics = []\<rparr>)
                  (Get_diags corrupt_state))"
    by (simp add: corrupt_state_def)
  have h2: "Atoi (ValueString (ID (Get_val corrupt_state))) =
      Inl \<lparr>Func = ''Atoi'', Num = ''abc'', Err = ErrSyntax\<rparr>"
    by (simp add: corrupt_state_def Atoi_abc)
  from Read_conversion_error [OF h1 h2, of quote_ascii
      "\<lparr>client = Some (recording (scripted (Inr cafe42) (Inr [cafe42]) (Inr cafe42)))\<rparr>"
      "((), [])"] h1 h2
  show ?thesis
    by (simp add: corrupt_state_def NumError_Error_def quote_ascii_def)
qed

text \<open>
  C3. When the stored identifier parses and the remote query returns without an error and
  with no entity, Read adds exactly one error diagnostic, "Cafe Not Found"; the response
  holds no "Unable to Read HashiCups Cafe" diagnostic, the one a failing remote query
  gets, and its state is left as it was.
\<close>

theorem Read_NotFound:
  assumes "client r = Some cl"
    and "\<not> HasError (Append (Diagnostics resp) (Get_diags req_State))"
    and "Atoi (ValueString (ID (Get_val req_State))) = Inr cafeID"
    and "GetCafe cl (Itoa cafeID) rs = (Inr [], rs')"
  shows "Read Quote r req_State resp rs =
      Some (resp\<lparr>Diagnostics :=
              Append (Diagnostics resp) (Get_diags req_State) @
              [NewErrorDiagnostic ''Cafe Not Found'' ''No cafe found with the given ID'']\<rparr>, rs') \<and>
    \<not> Contains
        (Append (Diagnostics resp) (Get_diags req_State) @
         [NewErrorDiagnostic ''Cafe Not Found'' ''No cafe found with the given ID''])
        (NewErrorDiagnostic ''Unable to Read HashiCups Cafe'' err)"
  using assms no_error_not_Contains [OF assms(2), of "''Unable to Read HashiCups Cafe''" err]
  by (simp add: Read_def Let_def AddError_fresh Contains_set NewErrorDiagnostic_eq)

theorem Read_NotFound_witness:
  "client \<lparr>client = Some (scripted (Inr cafe42) (Inr []) (Inr cafe42))\<rparr> =
     Some (scripted (Inr cafe42) (Inr []) (Inr cafe42)) \<and>
   \<not> HasError (Append (Diagnostics \<lparr>State = stored_state, Diagnostics = []\<rparr>)
                  (Get_diags stored_state)) \<and>
   Atoi (ValueString (ID (Get_val stored_state))) = Inr 42 \<and>
   GetCafe (scripted (Inr cafe42) (Inr []) (Inr cafe42)) (Itoa 42) () = (Inr [], ()) \<and>
   Read quote_ascii \<lparr>client = Some (scripted (Inr cafe42) (Inr []) (Inr cafe42))\<rparr>
     stored_state \<lparr>State = stored_state, Diagnostics = []\<rparr> () =
     Some (\<lparr>State = stored_state,
            Diagnostics =
              [NewErrorDiagnostic ''Cafe Not Found'' ''No cafe found with the given ID'']\<rparr>, ())"
proof -
  let ?cl = "scripted (Inr cafe42) (Inr []) (Inr cafe42)"
  have h1: "client \<lparr>client = Some ?cl\<rparr> = Some ?cl" by simp
  have h2: "\<not> HasError (Append (Diagnostics \<lparr>State = stored_state, Diagnostics = []\<rparr>)
                  (Get_diags stored_state))"
    by (simp add: stored_state_def)
  have h3: "Atoi (ValueString (ID (Get_val stored_state))) = Inr 42"
    by (simp add: stored_state_def Atoi_42)
  have h4: "GetCafe ?cl (Itoa 42) () = (Inr [], ())" by (simp add: scripted_def)
  from Read_NotFound [OF h1 h2 h3 h4, of quote_ascii] h1 h2 h3 h4 show ?thesis
    by (simp add: stored_state_def)
qed

text \<open>
  C7. When the stored identifier parses and the remote query returns at least one entity,
  Read persists a model all of whose attributes (id, name, address, description, image) are
  the values of the entity returned; no attribute of the prior state survives, whatever the
  prior state and the entity are.
\<close>

theorem Read_full_refresh:
  assumes "client r = Some cl"
    and "\<not> HasError (Append (Diagnostics resp) (Get_diags req_State))"
    and "Atoi (ValueString (ID (Get_val req_State))) = Inr cafeID"
    and "GetCafe cl (Itoa cafeID) rs = (Inr (cafe # others), rs')"
  shows "Read Quote r req_State resp rs =
      Some (\<lparr>State =
               \<lparr>Get_diags = [],
                Get_val = \<lparr>ID = StringValue (Itoa (Cafe_ID cafe)),
                           Name = StringValue (Cafe_Name cafe),
                           Address = StringValue (Cafe_Address cafe),
                           Description = StringValue (Cafe_Description cafe),
                           Image_attr = StringValue (Cafe_Image cafe)\<rparr>\<rparr>,
              Diagnostics = Append (Diagnostics resp) (Get_diags req_State)\<rparr>, rs')"
  using assms
  by (simp add: Read_def Let_def State_Set_def model_all_fields_Read)

theorem Read_full_refresh_witness:
  "client \<lparr>client = Some (scripted (Inr cafe42) (Inr [cafe42]) (Inr cafe42))\<rparr> =
     Some (scripted (Inr cafe42) (Inr [cafe42]) (Inr cafe42)) \<and>
   \<not> HasError (Append (Diagnostics \<lparr>State = stored_state, Diagnostics = []\<rparr>)
                  (Get_diags stored_state)) \<and>
   Atoi (ValueString (ID (Get_val stored_state))) = Inr 42 \<and>
   GetCafe (scripted (Inr cafe42) (Inr [cafe42]) (Inr cafe42)) (Itoa 42) () = (Inr [cafe42], ()) \<and>
   Read quote_ascii \<lparr>client = Some (scripted (Inr cafe42) (Inr [cafe42]) (Inr cafe42))\<rparr>
     stored_state \<lparr>State = stored_state, Diagnostics = []\<rparr> () =
     Some (\<lparr>State =
              \<lparr>Get_diags = [],
               Get_val = \<lparr>ID = StringValue ''42'',
                          Name = StringValue ''Sample Cafe'',
                          Address = StringValue ''123 Coffee St'',
                          Description = StringValue ''A cozy place'',
                          Image_attr = StringValue ''http://example.com/image.jpg''\<rparr>\<rparr>,
            Diagnostics = []\<rparr>, ())"
proof -
  let ?cl = "scripted (Inr cafe42) (Inr [cafe42]) (Inr cafe42)"
  have h1: "client \<lparr>client = Some ?cl\<rparr> = Some ?cl" by simp
  have h2: "\<not> HasError (Append (Diagnostics \<lparr>State = stored_state, Diagnostics = []\<rparr>)
                  (Get_diags stored_state))"
    by (simp add: stored_state_def)
  have h3: "Atoi (ValueString (ID (Get_val stored_state))) = Inr 42"
    by (simp add: stored_state_def Atoi_42)
  have h4: "GetCafe ?cl (Itoa 42) () = (Inr [cafe42], ())" by (simp add: scripted_def)
  from Read_full_refresh [OF h1 h2 h3 h4, of quote_ascii] h1 h2 h3 h4 show ?thesis
    by (simp add: stored_state_def cafe42_def Itoa_42)
qed

text \<open>
  C10. When the remote query returns more than one entity, Read persists the model of the
  first entity of the list; the other entities do not enter the response, and no diagnostic
  is added.
\<close>

theorem Read_first_of_many:
  assumes "client r = Some cl"
    and "\<not> HasError (Append (Diagnostics resp) (Get_diags req_State))"
    and "Atoi (ValueString (ID (Get_val req_State))) = Inr cafeID"
    and "GetCafe cl (Itoa cafeID) rs = (Inr (first # second # others), rs')"
  shows "Read Quote r req_State resp rs =
      Some (resp\<lparr>State :=
                   \<lparr>Get_diags = [],
                    Get_val = \<lparr>ID = StringValue (Itoa (Cafe_ID first)),
                               Name = StringValue (Cafe_Name first),
                               Address = StringValue (Cafe_Address first),
                               Description = StringValue (Cafe_Description first),
                               Image_attr = StringValue (Cafe_Image first)\<rparr>\<rparr>,
                 Diagnostics := Append (Diagnostics resp) (Get_diags req_State)\<rparr>, rs')"
  using assms
  by (simp add: Read_def Let_def State_Set_def model_all_fields_Read)

theorem Read_first_of_many_witness:
  "client \<lparr>client = Some (scripted (Inr cafe42) (Inr [cafe42, cafe43]) (Inr cafe42))\<rparr> =
     Some (scripted (Inr cafe42) (Inr [cafe42, cafe43]) (Inr cafe42)) \<and>
   \<not> HasError (Append (Diagnostics \<lparr>State = stored_state, Diagnostics = []\<rparr>)
                  (Get_diags stored_state)) \<and>
   Atoi (ValueString (ID (Get_val stored_state))) = Inr 42 \<and>
   GetCafe (scripted (Inr cafe42) (Inr [cafe42, cafe43]) (Inr cafe42)) (Itoa 42) () =
     (Inr [cafe42, cafe43], ()) \<and>
   Read quote_ascii \<lparr>client = Some (scripted (Inr cafe42) (Inr [cafe42, cafe43]) (Inr cafe42))\<rparr>
     stored_state \<lparr>State = stored_state, Diagnostics = []\<rparr> () =
     Some (\<lparr>State =
              \<lparr>Get_diags = [],
               Get_val = \<lparr>ID = StringValue ''42'',
                          Name = StringValue ''Sample Cafe'',
                          Address = StringValue ''123 Coffee St'',
                          Description = StringValue ''A cozy place'',
                          Image_attr = StringValue ''http://example.com/image.jpg''\<rparr>\<rparr>,
            Diagnostics = []\<rparr>, ())"
proof -
  let ?cl = "scripted (Inr cafe42) (Inr [cafe42, cafe43]) (Inr cafe42)"
  have h1: "client \<lparr>client = Some ?cl\<rparr> = Some ?cl" by simp
  have h2: "\<not> HasError (Append (Diagnostics \<lparr>State = stored_state, Diagnostics = []\<rparr>)
                  (Get_diags stored_state))"
    by (simp add: stored_state_def)
  have h3: "Atoi (ValueString (ID (Get_val stored_state))) = Inr 42"
    by (simp add: stored_state_def Atoi_42)
  have h4: "GetCafe ?cl (Itoa 42) () = (Inr [cafe42, cafe43], ())" by (simp add: scripted_def)
  from Read_first_of_many [OF h1 h2 h3 h4, of quote_ascii] h1 h2 h3 h4 show ?thesis
    by (simp add: stored_state_def cafe42_def Itoa_42)
qed

text \<open>
  C9. Read is idempotent. Let a first Read refresh the state from the entities the remote
  query returned, and let a second Read run on the state the first one persisted, with a
  response that starts from that state and no diagnostics. If the remote system answers the
  query of the second Read as it answered the query of the first, the second Read persists
  the very state it started from. The identifier the first Read wrote is the decimal text of
  a machine integer, which the second Read parses back to the same integer.
\<close>

theorem Read_idempotent:
  assumes "client r = Some cl"
    and "\<not> HasError (Append (Diagnostics resp) (Get_diags req_State))"
    and "Atoi (ValueString (ID (Get_val req_State))) = Inr cafeID"
    and "GetCafe cl (Itoa cafeID) rs = (Inr (cafe # others), rs1)"
    and "GetCafe cl (Itoa (Cafe_ID cafe)) rs1 = (Inr (cafe # others), rs2)"
  shows "\<exists>resp1.
    Read Quote r req_State resp rs = Some (resp1, rs1) \<and>
    Read Quote r (State resp1) \<lparr>State = State resp1, Diagnostics = []\<rparr> rs1 =
      Some (\<lparr>State = State resp1, Diagnostics = []\<rparr>, rs2)"
  using assms
  by (simp add: Read_def Let_def State_Set_def model_all_fields_Read Atoi_Itoa)

theorem Read_idempotent_witness:
  "client \<lparr>client = Some (scripted (Inr cafe42) (Inr [cafe42]) (Inr cafe42))\<rparr> =
     Some (scripted (Inr cafe42) (Inr [cafe42]) (Inr cafe42)) \<and>
   \<not> HasError (Append (Diagnostics \<lparr>State = stored_state, Diagnostics = []\<rparr>)
                  (Get_diags stored_state)) \<and>
   Atoi (ValueString (ID (Get_val stored_state))) = Inr 42 \<and>
   GetCafe (scripted (Inr cafe42) (Inr [cafe42]) (Inr cafe42)) (Itoa 42) () = (Inr [cafe42], ()) \<and>
   GetCafe (scripted (Inr cafe42) (Inr [cafe42]) (Inr cafe42)) (Itoa (Cafe_ID cafe42)) () =
     (Inr [cafe42], ()) \<and>
   (\<exists>resp1.
      Read quote_ascii \<lparr>client = Some (scripted (Inr cafe42) (Inr [cafe42]) (Inr cafe42))\<rparr>
        stored_state \<lparr>State = stored_state, Diagnostics = []\<rparr> () = Some (resp1, ()) \<and>
      Read quote_ascii \<lparr>client = Some (scripted (Inr cafe42) (Inr [cafe42]) (Inr cafe42))\<rparr>
        (State resp1) \<lparr>State = State resp1, Diagnostics = []\<rparr> () =
        Some (\<lparr>State = State resp1, Diagnostics = []\<rparr>, ()))"
proof -
  let ?cl = "scripted (Inr cafe42) (Inr [cafe42]) (Inr cafe42)"
  have h1: "client \<lparr>client = Some ?cl\<rparr> = Some ?cl" by simp
  have h2: "\<not> HasError (Append (Diagnostics \<lparr>State = stored_state, Diagnostics = []\<rparr>)
                  (Get_diags stored_state))"
    by (simp add: stored_state_def)
  have h3: "Atoi (ValueString (ID (Get_val stored_state))) = Inr 42"
    by (simp add: stored_state_def Atoi_42)
  have h4: "GetCafe ?cl (Itoa 42) () = (Inr [cafe42], ())" by (simp add: scripted_def)
  have h5: "GetCafe ?cl (Itoa (Cafe_ID cafe42)) () = (Inr [cafe42], ())"
    by (simp add: scripted_def)
  from Read_idempotent [OF h1 h2 h3 h4 h5, of quote_ascii] h1 h2 h3 h4 h5 show ?thesis
    by blast
qed

section \<open>Configure\<close>

text \<open>
  C8. Configure with nil provider data changes neither the resource nor the diagnostics.
  Configure with provider data of another type than the client handle leaves the resource as
  it was and, on a response without diagnostics, yields exactly one error diagnostic, whose
  detail names the expected type and the type received. Configure with a client handle
  stores it and adds no diagnostic. Whenever Configure changes the stored handle, the
  provider data was a client handle.
\<close>

theorem Configure_cases:
  "Configure r ProviderData_nil diags = (r, diags) \<and>
   Configure r (ProviderData_other T) [] =
     (r, [NewErrorDiagnostic ''Unexpected Data Source Configure Type''
            (''Expected *hashicups.Client, got: '' @ T @
             ''. Please report this issue to the provider developers.'')]) \<and>
   Configure r (ProviderData_Client c) diags = (r\<lparr>client := c\<rparr>, diags) \<and>
   (client (fst (Configure r pd diags)) \<noteq> client r \<longrightarrow> (\<exists>c'. pd = ProviderData_Client c'))"
  by (cases pd) (simp_all add: Configure_def AddError_def)

theorem Configure_cases_witness:
  "client (fst (Configure \<lparr>client = None\<rparr> (ProviderData_Client (Some (echo_stub 42))) [])) \<noteq>
     client \<lparr>client = None\<rparr> \<and>
   (\<exists>c'. ProviderData_Client (Some (echo_stub 42)) = ProviderData_Client c') \<and>
   Configure \<lparr>client = None\<rparr> ProviderData_nil [] = (\<lparr>client = None :: unit Client option\<rparr>, []) \<and>
   Configure \<lparr>client = None :: unit Client option\<rparr> (ProviderData_other ''string'') [] =
     (\<lparr>client = None\<rparr>,
      [NewErrorDiagnostic ''Unexpected Data Source Configure Type''
         ''Expected *hashicups.Client, got: string. Please report this issue to the provider developers.''])"
proof -
  have h: "client (fst (Configure \<lparr>client = None\<rparr> (ProviderData_Client (Some (echo_stub 42))) [])) \<noteq>
     client \<lparr>client = None\<rparr>"
    by (simp add: Configure_def)
  from Configure_cases [of "\<lparr>client = None\<rparr>" "[]" "''string''" "Some (echo_stub 42)"
      "ProviderData_Client (Some (echo_stub 42))"] h
  show ?thesis by simp
qed

section \<open>Update\<close>

text \<open>
  C4, as the code has it. Update sends one update call and no read:
  the persisted model is populated from the response of the update call. With a remote
  system whose update response carries the identifier only, the persisted model has empty
  attributes although a read by identifier would return them.
\<close>

theorem Update_followup_read_counterexample:
  "Update quote_ascii
     \<lparr>client = Some (recording (scripted (Inr cafe42) (Inr [cafe42])
        (Inr \<lparr>Cafe_ID = 42, Cafe_Name = [], Cafe_Address = [], Cafe_Description = [],
              Cafe_Image = []\<rparr>)))\<rparr>
     (scenario_plan\<lparr>Get_val := (Get_val scenario_plan)\<lparr>ID := StringValue ''42''\<rparr>\<rparr>)
     \<lparr>State = stored_state, Diagnostics = []\<rparr> ((), []) =
   Some (\<lparr>State =
            \<lparr>Get_diags = [],
             Get_val = \<lparr>ID = StringValue ''42'', Name = StringValue [], Address = StringValue [],
                        Description = StringValue [], Image_attr = StringValue []\<rparr>\<rparr>,
          Diagnostics = []\<rparr>,
         ((), [Call_UpdateCafe ''42''
                 [\<lparr>Cafe_ID = 42, Cafe_Name = ''Sample Cafe'', Cafe_Address = ''123 Coffee St'',
                   Cafe_Description = ''A cozy place'',
                   Cafe_Image = ''http://example.com/image.jpg''\<rparr>]]))"
  by (simp add: Update_def scenario_plan_def recording_def scripted_def State_Set_def
        Atoi_42 Itoa_42)

text \<open>
  C4, amended. Update on a plan that decodes without an error and whose identifier parses
  sends exactly one call to the remote client, the update call with the plan's identifier
  text and one entity built from the plan. When that call succeeds, the persisted model is
  populated from the response of the update call and no read follows; when it fails, one
  "Error Updating HashiCups Cafe" diagnostic ending in the client's error text is added and
  the state is left as it was.
\<close>

theorem Update_sources_of_state:
  assumes "client r = Some (recording cl)"
    and "\<not> HasError (Append (Diagnostics resp) (Get_diags req_Plan))"
    and "Atoi (ValueString (ID (Get_val req_Plan))) = Inr cafeID"
    and "cafe = \<lparr>Cafe_ID = cafeID,
                 Cafe_Name = ValueString (Name (Get_val req_Plan)),
                 Cafe_Address = ValueString (Address (Get_val req_Plan)),
                 Cafe_Description = ValueString (Description (Get_val req_Plan)),
                 Cafe_Image = ValueString (Image_attr (Get_val req_Plan))\<rparr>"
    and "idtext = ValueString (ID (Get_val req_Plan))"
  shows "Update Quote r req_Plan resp (s, log) =
      Some (case fst (UpdateCafe cl idtext [cafe] s) of
              Inr updatedCafe \<Rightarrow>
                resp\<lparr>State :=
                       \<lparr>Get_diags = [],
                        Get_val = \<lparr>ID = StringValue (Itoa (Cafe_ID updatedCafe)),
                                   Name = StringValue (Cafe_Name updatedCafe),
                                   Address = StringValue (Cafe_Address updatedCafe),
                                   Description = StringValue (Cafe_Description updatedCafe),
                                   Image_attr = StringValue (Cafe_Image updatedCafe)\<rparr>\<rparr>,
                     Diagnostics := Append (Diagnostics resp) (Get_diags req_Plan)\<rparr>
            | Inl err \<Rightarrow>
                resp\<lparr>Diagnostics :=
                       Append (Diagnostics resp) (Get_diags req_Plan) @
                       [NewErrorDiagnostic ''Error Updating HashiCups Cafe''
                          (''Could not update cafe, unexpected error: '' @ err)]\<rparr>,
            (snd (UpdateCafe cl idtext [cafe] s), log @ [Call_UpdateCafe idtext [cafe]]))"
  using assms
  by (auto simp: Update_def Let_def recording_def State_Set_def AddError_fresh
        model_all_fields split: prod.splits sum.splits)

theorem Update_sources_of_state_witness:
  "client \<lparr>client = Some (recording (scripted (Inr cafe42) (Inr [cafe42]) (Inr cafe42)))\<rparr> =
     Some (recording (scripted (Inr cafe42) (Inr [cafe42]) (Inr cafe42))) \<and>
   \<not> HasError (Append (Diagnostics \<lparr>State = stored_state, Diagnostics = []\<rparr>)
                  (Get_diags stored_state)) \<and>
   Atoi (ValueString (ID (Get_val stored_state))) = Inr 42 \<and>
   Update quote_ascii
     \<lparr>client = Some (recording (scripted (Inr cafe42) (Inr [cafe42]) (Inr cafe42)))\<rparr>
     stored_state \<lparr>State = stored_state, Diagnostics = []\<rparr> ((), []) =
     Some (\<lparr>State =
              \<lparr>Get_diags = [],
               Get_val = \<lparr>ID = StringValue ''42'',
                          Name = StringValue ''Sample Cafe'',
                          Address = StringValue ''123 Coffee St'',
                          Description = StringValue ''A cozy place'',
                          Image_attr = StringValue ''http://example.com/image.jpg''\<rparr>\<rparr>,
            Diagnostics = []\<rparr>,
           ((), [Call_UpdateCafe ''42''
                   [\<lparr>Cafe_ID = 42, Cafe_Name = ''Old Name'', Cafe_Address = ''Old Address'',
                     Cafe_Description = [], Cafe_Image = []\<rparr>]]))"
proof -
  let ?cl = "scripted (Inr cafe42) (Inr [cafe42]) (Inr cafe42)"
  let ?cafe = "\<lparr>Cafe_ID = 42, Cafe_Name = ''Old Name'', Cafe_Address = ''Old Address'',
                 Cafe_Description = [], Cafe_Image = []\<rparr>"
  have h1: "client \<lparr>client = Some (recording ?cl)\<rparr> = Some (recording ?cl)" by simp
  have h2: "\<not> HasError (Append (Diagnostics \<lparr>State = stored_state, Diagnostics = []\<rparr>)
                  (Get_diags stored_state))"
    by (simp add: stored_state_def)
  have h3: "Atoi (ValueString (ID (Get_val stored_state))) = Inr 42"
    by (simp add: stored_state_def Atoi_42)
  have h4: "?cafe = \<lparr>Cafe_ID = 42,
                 Cafe_Name = ValueString (Name (Get_val stored_state)),
                 Cafe_Address = ValueString (Address (Get_val stored_state)),
                 Cafe_Description = ValueString (Description (Get_val stored_state)),
                 Cafe_Image = ValueString (Image_attr (Get_val stored_state))\<rparr>"
    by (simp add: stored_state_def)
  have h5: "''42'' = ValueString (ID (Get_val stored_state))" by (simp add: stored_state_def)
  from Update_sources_of_state [OF h1 h2 h3 h4 h5,
      where Quote = quote_ascii and s = "()" and log = "[]"]
    h1 h2 h3
  show ?thesis
    by (auto simp: scripted_def cafe42_def Itoa_42 stored_state_def)
qed

end
